theory Spec2Isabelle
  imports Complex_Main
begin

section \<open>Python values shared by both modules\<close>

text \<open>
  The exceptions that the two modules can let escape. None of them is caught in the
  source, so each one ends the call that meets it.
\<close>

datatype py_error =
    EOFError
  | AttributeError
  | TermiosError
  | UnicodeDecodeError
  | BrokenPipeError
  | KeyboardInterrupt

section \<open>minimum\_interval.py: the debounced line input\<close>

text \<open>
  \<^verbatim>\<open>wait_for_enter\<close> keeps its last time stamp in the function attribute
  \<^verbatim>\<open>wait_for_enter.input_time\<close>. The attribute does not exist before the first call
  (\<^verbatim>\<open>hasattr\<close> is false), is then set to \<^verbatim>\<open>None\<close>, and holds a clock reading after
  the first read attempt.
\<close>

datatype 't attribute = Absent | Present "'t option"

text \<open>
  The surroundings of a call. \<open>pending\<close> lists the lines that will be submitted on
  standard input, each with the time at which it is submitted; once the list is used up,
  standard input is at its end. \<open>clock\<close> is what \<^verbatim>\<open>time.time()\<close> returns now,
  \<open>shown\<close> the prompts written so far.

  Time stamps are kept abstract: any type with a subtraction and an order will do, so that
  nothing below depends on the arithmetic of a particular number type.
\<close>

record 't env =
  input_time :: "'t attribute"
  pending :: "(string \<times> 't) list"
  clock :: 't
  shown :: "string list"

text \<open>
  \<^verbatim>\<open>input(prompt)\<close>: writes the prompt, waits for the next line and returns its text; at
  the end of standard input it raises \<^verbatim>\<open>EOFError\<close>. The clock has moved on to the time
  of the submission when it returns.
\<close>

definition input_line :: "string \<Rightarrow> 't env \<Rightarrow> (py_error + string) \<times> 't env" where
  "input_line prompt e =
     (case pending e of
        [] \<Rightarrow> (Inl EOFError, e\<lparr>shown := shown e @ [prompt]\<rparr>)
      | (text, t) # rest \<Rightarrow>
          (Inr text, e\<lparr>shown := shown e @ [prompt], clock := t, pending := rest\<rparr>))"

definition time_time :: "'t env \<Rightarrow> 't" where
  "time_time e = clock e"

text \<open>
  The condition of line 11, in the order of the source:
  \<^verbatim>\<open>previous_time == None or len(text) > 0 or input_time - previous_time >= minimum_interval\<close>.
  The subtraction is reached only when \<^verbatim>\<open>previous_time\<close> is a time stamp.
\<close>

definition accepted :: "'t::{minus,ord} option \<Rightarrow> string \<Rightarrow> 't \<Rightarrow> 't \<Rightarrow> bool" where
  "accepted previous_time text now minimum_interval =
     (case previous_time of
        None \<Rightarrow> True
      | Some p \<Rightarrow> 0 < length text \<or> minimum_interval \<le> now - p)"

text \<open>The value of the attribute when it is read on line 9 (it exists by then).\<close>

definition stored :: "'t attribute \<Rightarrow> 't option" where
  "stored a = (case a of Absent \<Rightarrow> None | Present v \<Rightarrow> v)"

text \<open>The \<^verbatim>\<open>while True\<close> loop of lines 7 to 12.\<close>

function wait_loop ::
  "string \<Rightarrow> 't::{minus,ord} \<Rightarrow> 't env \<Rightarrow> (py_error + string) \<times> 't env" where
  "wait_loop prompt minimum_interval e =
     (case input_line prompt e of
        (Inl err, e1) \<Rightarrow> (Inl err, e1)
      | (Inr text, e1) \<Rightarrow>
          (let previous_time = stored (input_time e1);
               e2 = e1\<lparr>input_time := Present (Some (time_time e1))\<rparr>
           in if accepted previous_time text (time_time e1) minimum_interval
              then (Inr text, e2)
              else wait_loop prompt minimum_interval e2))"
  by pat_completeness auto
termination
  by (relation "measure (\<lambda>(prompt, minimum_interval, e). length (pending e))")
     (auto simp: input_line_def split: list.splits)

declare wait_loop.simps [simp del]

text \<open>Lines 5 and 6 create the attribute on the first call, then the loop runs.\<close>

definition wait_for_enter ::
  "string \<Rightarrow> 't::{minus,ord} \<Rightarrow> 't env \<Rightarrow> (py_error + string) \<times> 't env" where
  "wait_for_enter prompt minimum_interval e =
     wait_loop prompt minimum_interval
       (case input_time e of
          Absent \<Rightarrow> e\<lparr>input_time := Present None\<rparr>
        | Present v \<Rightarrow> e)"

text \<open>
  The state right after one read attempt: the prompt is written, the line is taken, and the
  attribute holds the time of the attempt.
\<close>

definition attempted :: "string \<Rightarrow> 't env \<Rightarrow> 't env" where
  "attempted prompt e =
     (case pending e of
        [] \<Rightarrow> e
      | (text, t) # rest \<Rightarrow>
          e\<lparr>shown := shown e @ [prompt], clock := t, pending := rest,
            input_time := Present (Some t)\<rparr>)"

text \<open>
  The acceptance rule in the words of the specification: a line is accepted when no time
  stamp was recorded before, or its text is not empty, or the time since the previous read
  attempt is at least the minimum interval.
\<close>

definition spec_accepts :: "'t::{minus,ord} option \<Rightarrow> string \<Rightarrow> 't \<Rightarrow> 't \<Rightarrow> bool" where
  "spec_accepts previous text now minimum_interval =
     (previous = None \<or> text \<noteq> [] \<or>
      (case previous of None \<Rightarrow> False | Some p \<Rightarrow> minimum_interval \<le> now - p))"

text \<open>The attribute holds a clock reading (it exists and is not \<^verbatim>\<open>None\<close>).\<close>

definition stamped :: "'t attribute \<Rightarrow> bool" where
  "stamped a = (case a of Absent \<Rightarrow> False | Present v \<Rightarrow> v \<noteq> None)"

text \<open>
  A program's successive calls of \<^verbatim>\<open>wait_for_enter\<close>, each with its prompt and its
  minimum interval, as the loop at the end of the module makes them; the state of one call
  is handed to the next.
\<close>

fun calls :: "(string \<times> 't::{minus,ord}) list \<Rightarrow> 't env \<Rightarrow> 't env" where
  "calls [] e = e"
| "calls ((prompt, minimum_interval) # cs) e =
     calls cs (snd (wait_for_enter prompt minimum_interval e))"


section \<open>key\_reader.py: the non-blocking keypress reader\<close>

text \<open>
  A call into the reader or into the library either returns a value, or raises, or waits
  for something that is not there. The third case is kept apart from the errors, since
  whether \<^verbatim>\<open>read\<close> can wait is one of the questions.
\<close>

datatype 'a outcome = Returns 'a | Raises py_error | Blocks

text \<open>
  The terminal attributes that \<^verbatim>\<open>termios.tcgetattr\<close> returns. The two flags and the two
  control characters that \<^verbatim>\<open>tty.setcbreak\<close> touches are fields of their own; \<open>other\<close>
  stands for all the rest of the attribute list.
\<close>

record termios =
  echo :: bool
  icanon :: bool
  vmin :: nat
  vtime :: nat
  other :: nat

datatype set_when = TCSANOW | TCSADRAIN | TCSAFLUSH

text \<open>
  The world the reader runs in.
  \<^item> \<open>sys_platform\<close> is \<^verbatim>\<open>sys.platform\<close>; the source compares it with \<^verbatim>\<open>'win32'\<close>.
  \<^item> \<open>isatty\<close>: standard input is a terminal, which is to say that \<^verbatim>\<open>tcgetattr\<close>
    succeeds on it; the termios calls raise when it is not.
  \<^item> \<open>tcset_result\<close>: what an attempt to change the settings of the terminal meets now.
    It succeeds for a process in the foreground; it raises \<^verbatim>\<open>termios.error\<close> (EIO) for
    one in an orphaned background process group; it waits while the output cannot drain.
  \<^item> \<open>attrs\<close>: the terminal's current attributes.
  \<^item> \<open>fd_ready\<close>: the bytes that can be read from the descriptor of standard input
    now, oldest first, and \<open>fd_eof\<close>: after these bytes the input is at its end (the other
    side has closed or hung up). This is what \<^verbatim>\<open>select\<close> looks at.
  \<^item> \<open>undecoded\<close> and \<open>text_held\<close>: the state of the text stream \<^verbatim>\<open>sys.stdin\<close>, which
    is a buffered text stream over the descriptor. It fetches bytes from the descriptor a
    chunk at a time and decodes them. \<open>text_held\<close> are the characters it has decoded and
    not handed out yet; \<open>undecoded\<close> are the first bytes of a character whose other bytes
    have not come.
  \<^item> \<open>console\<close>: the key bytes queued at the Windows console, which \<^verbatim>\<open>kbhit\<close> and
    \<^verbatim>\<open>getch\<close> of \<^verbatim>\<open>msvcrt\<close> look at.
  \<^item> \<open>stdout\<close>: the lines printed so far, and \<open>print_result\<close>: what a \<^verbatim>\<open>print\<close> meets
    now. It raises on a closed or broken standard output and waits on a full pipe.
  A Python string is written as the bytes of its UTF-8 encoding, so a character is a string
  of one to four bytes; the lines that the source prints are plain ASCII.
\<close>

record terminal =
  sys_platform :: string
  isatty :: bool
  tcset_result :: "unit outcome"
  attrs :: termios
  fd_ready :: string
  fd_eof :: bool
  undecoded :: string
  text_held :: "string list"
  console :: string
  stdout :: "string list"
  print_result :: "unit outcome"

text \<open>The object: the flag of the constructor, and the field that only \<^verbatim>\<open>open\<close> assigns.\<close>

record KeyReader =
  verbose :: bool
  old_settings :: "termios option"

subsection \<open>The library calls\<close>

text \<open>\<^verbatim>\<open>print(line)\<close>: the line is written, or the write raises or waits and nothing is written.\<close>

definition print_line :: "string \<Rightarrow> terminal \<Rightarrow> unit outcome \<times> terminal" where
  "print_line s w =
     (case print_result w of
        Returns u \<Rightarrow> (Returns (), w\<lparr>stdout := stdout w @ [s]\<rparr>)
      | Raises err \<Rightarrow> (Raises err, w)
      | Blocks \<Rightarrow> (Blocks, w))"

definition tcgetattr :: "terminal \<Rightarrow> termios outcome" where
  "tcgetattr w = (if isatty w then Returns (attrs w) else Raises TermiosError)"

text \<open>
  \<^verbatim>\<open>termios.tcsetattr(fd, when, attributes)\<close>. It raises when the descriptor is no terminal,
  and else does what \<open>tcset_result\<close> says. When it succeeds the attributes are set;
  \<^verbatim>\<open>TCSAFLUSH\<close> also discards the input that is queued at the descriptor, \<^verbatim>\<open>TCSADRAIN\<close>
  and \<^verbatim>\<open>TCSANOW\<close> keep it.
\<close>

definition tcsetattr :: "set_when \<Rightarrow> termios \<Rightarrow> terminal \<Rightarrow> unit outcome \<times> terminal" where
  "tcsetattr when a w =
     (if isatty w
      then (case tcset_result w of
              Returns u \<Rightarrow>
                (Returns (),
                 w\<lparr>attrs := a, fd_ready := (if when = TCSAFLUSH then [] else fd_ready w)\<rparr>)
            | Raises err \<Rightarrow> (Raises err, w)
            | Blocks \<Rightarrow> (Blocks, w))
      else (Raises TermiosError, w))"

text \<open>
  \<^verbatim>\<open>tty.setcbreak(fd)\<close> of the standard library: it reads the attributes, clears \<^verbatim>\<open>ECHO\<close>
  and \<^verbatim>\<open>ICANON\<close>, sets \<^verbatim>\<open>VMIN\<close> to 1 and \<^verbatim>\<open>VTIME\<close> to 0, and applies the result with
  \<^verbatim>\<open>TCSAFLUSH\<close>, its default.
\<close>

definition setcbreak :: "terminal \<Rightarrow> unit outcome \<times> terminal" where
  "setcbreak w =
     (case tcgetattr w of
        Returns mode \<Rightarrow>
          tcsetattr TCSAFLUSH (mode\<lparr>echo := False, icanon := False, vmin := 1, vtime := 0\<rparr>) w
      | Raises err \<Rightarrow> (Raises err, w)
      | Blocks \<Rightarrow> (Blocks, w))"

text \<open>
  \<^verbatim>\<open>select.select([sys.stdin], [], [], 0)\<close>: with the timeout 0 it returns at once, and
  \<^verbatim>\<open>sys.stdin\<close> is in the first list of the result when a read of the descriptor would
  not wait: a byte is ready, or the input is at its end.
\<close>

definition select_stdin :: "terminal \<Rightarrow> bool" where
  "select_stdin w = (fd_ready w \<noteq> [] \<or> fd_eof w)"

text \<open>
  The UTF-8 decoder of the text stream, as CPython's. \<open>utf8_need\<close> is the length of the
  character that a first byte announces, 0 for a byte that cannot come first.
  \<open>utf8_second_ok\<close> is the test of the second byte, which is narrower after the first bytes
  E0, ED, F0 and F4. \<open>utf8_first\<close> looks at the first byte \<open>b\<close> and the bytes \<open>bs\<close> that
  follow it: the bytes form a whole character of so many bytes, or they are the beginning
  of one, or they can no longer become one. A first byte ED followed by just one byte from
  A0 to BF (half of a surrogate) counts as a beginning until a third byte has come.
\<close>

definition utf8_need :: "char \<Rightarrow> nat" where
  "utf8_need b =
     (let n = (of_char b :: nat)
      in if n < 0x80 then 1 else if n < 0xC2 then 0 else if n < 0xE0 then 2
         else if n < 0xF0 then 3 else if n < 0xF5 then 4 else 0)"

definition utf8_cont :: "char \<Rightarrow> bool" where
  "utf8_cont b = (0x80 \<le> (of_char b :: nat) \<and> (of_char b :: nat) < 0xC0)"

definition utf8_second_ok :: "char \<Rightarrow> char \<Rightarrow> bool" where
  "utf8_second_ok lead b =
     (let l = (of_char lead :: nat); n = (of_char b :: nat)
      in utf8_cont b \<and>
         (if l = 0xE0 then 0xA0 \<le> n else if l = 0xED then n < 0xA0
          else if l = 0xF0 then 0x90 \<le> n else if l = 0xF4 then n < 0x90 else True))"

datatype utf8_step = Whole nat | Partial | Malformed

definition utf8_first :: "char \<Rightarrow> string \<Rightarrow> utf8_step" where
  "utf8_first b bs =
     (let n = utf8_need b
      in if n = 0 then Malformed
         else if (of_char b :: nat) = 0xED \<and> length bs = 1 \<and>
                 list_all (\<lambda>c. utf8_cont c \<and> 0xA0 \<le> (of_char c :: nat)) bs then Partial
         else (case take (n - 1) bs of
                 [] \<Rightarrow> if n = 1 then Whole 1 else Partial
               | c # cs \<Rightarrow>
                   if \<not> utf8_second_ok b c then Malformed
                   else if list_ex (\<lambda>d. \<not> utf8_cont d) cs then Malformed
                   else if Suc (length cs) < n - 1 then Partial
                   else Whole n))"

text \<open>
  Decoding a run of bytes: the whole characters in order and the beginning of a character
  that is left over, or \<open>None\<close> when a byte is malformed, in which case the decoder raises
  and returns none of the characters.
\<close>

fun utf8_split :: "string \<Rightarrow> (string list \<times> string) option" where
  "utf8_split [] = Some ([], [])"
| "utf8_split (b # bs) =
     (case utf8_first b bs of
        Malformed \<Rightarrow> None
      | Partial \<Rightarrow> Some ([], b # bs)
      | Whole n \<Rightarrow>
          (case utf8_split (drop (n - 1) bs) of
             None \<Rightarrow> None
           | Some (cs, rest) \<Rightarrow> Some ((b # take (n - 1) bs) # cs, rest)))"

text \<open>
  \<^verbatim>\<open>sys.stdin.read(1)\<close>. The stream hands out a character that it holds. When it holds
  none it reads a chunk of at most 8192 bytes from the descriptor, which waits when no byte
  is ready and the input is not at its end, and decodes the chunk after the bytes left over
  from the chunk before; it does so again until a character has come of it. A malformed
  byte raises \<^verbatim>\<open>UnicodeDecodeError\<close>, and the chunk is lost. At the end of the input the
  result is the empty string, or \<^verbatim>\<open>UnicodeDecodeError\<close> when the beginning of a character
  is left over.
\<close>

function stdin_read1 :: "terminal \<Rightarrow> string outcome \<times> terminal" where
  "stdin_read1 w =
     (case text_held w of
        c # cs \<Rightarrow> (Returns c, w\<lparr>text_held := cs\<rparr>)
      | [] \<Rightarrow>
          if fd_ready w = []
          then (if fd_eof w
                then (if undecoded w = [] then (Returns [], w)
                      else (Raises UnicodeDecodeError, w))
                else (Blocks, w))
          else (case utf8_split (undecoded w @ take 8192 (fd_ready w)) of
                  None \<Rightarrow> (Raises UnicodeDecodeError, w\<lparr>fd_ready := drop 8192 (fd_ready w)\<rparr>)
                | Some ([], rest) \<Rightarrow>
                    stdin_read1 (w\<lparr>fd_ready := drop 8192 (fd_ready w), undecoded := rest\<rparr>)
                | Some (c # cs, rest) \<Rightarrow>
                    (Returns c,
                     w\<lparr>fd_ready := drop 8192 (fd_ready w), undecoded := rest,
                       text_held := cs\<rparr>)))"
  by pat_completeness auto
termination
  by (relation "measure (\<lambda>w. length (fd_ready w))") auto

declare stdin_read1.simps [simp del]

text \<open>\<^verbatim>\<open>msvcrt.kbhit()\<close> and \<^verbatim>\<open>msvcrt.getch()\<close>; the latter waits for a key when none is queued.\<close>

definition kbhit :: "terminal \<Rightarrow> bool" where
  "kbhit w = (console w \<noteq> [])"

definition getch :: "terminal \<Rightarrow> char outcome \<times> terminal" where
  "getch w =
     (case console w of
        [] \<Rightarrow> (Blocks, w)
      | b # bs \<Rightarrow> (Returns b, w\<lparr>console := bs\<rparr>))"

text \<open>
  \<^verbatim>\<open>.decode('utf-8')\<close> of the one byte that \<^verbatim>\<open>getch\<close> returns: a byte below 128 is the
  character of that code, any other single byte is not valid UTF-8.
\<close>

definition decode_utf8 :: "char \<Rightarrow> string outcome" where
  "decode_utf8 b = (if of_char b < (128 :: nat) then Returns [b] else Raises UnicodeDecodeError)"

subsection \<open>The class\<close>

definition KeyReader_init :: "bool \<Rightarrow> KeyReader" where
  "KeyReader_init v = \<lparr>verbose = v, old_settings = None\<rparr>"

text \<open>
  \<^verbatim>\<open>open\<close>: line 35 prints when the flag is set, and what follows runs only when the
  \<^verbatim>\<open>print\<close> has returned. Line 37 assigns \<^verbatim>\<open>old_settings\<close> before line 38 calls
  \<^verbatim>\<open>tty.setcbreak\<close>, so the field is assigned also when that call fails.
\<close>

definition KeyReader_open :: "KeyReader \<Rightarrow> terminal \<Rightarrow> unit outcome \<times> KeyReader \<times> terminal" where
  "KeyReader_open self w =
     (case (if verbose self then print_line ''KeyReader: Opening...'' w else (Returns (), w)) of
        (Returns u, w1) \<Rightarrow>
          if sys_platform w1 \<noteq> ''win32''
          then (case tcgetattr w1 of
                  Returns a \<Rightarrow>
                    (case setcbreak w1 of (r, w2) \<Rightarrow> (r, self\<lparr>old_settings := Some a\<rparr>, w2))
                | Raises err \<Rightarrow> (Raises err, self, w1)
                | Blocks \<Rightarrow> (Blocks, self, w1))
          else (Returns (), self, w1)
      | (Raises err, w1) \<Rightarrow> (Raises err, self, w1)
      | (Blocks, w1) \<Rightarrow> (Blocks, self, w1))"

text \<open>\<^verbatim>\<open>close\<close>: line 41 prints when the flag is set, then line 43 restores.\<close>

definition KeyReader_close :: "KeyReader \<Rightarrow> terminal \<Rightarrow> unit outcome \<times> KeyReader \<times> terminal" where
  "KeyReader_close self w =
     (case (if verbose self then print_line ''KeyReader: Closing...'' w else (Returns (), w)) of
        (Returns u, w1) \<Rightarrow>
          if sys_platform w1 \<noteq> ''win32''
          then (case old_settings self of
                  None \<Rightarrow> (Raises AttributeError, self, w1)
                | Some a \<Rightarrow> (case tcsetattr TCSADRAIN a w1 of (r, w2) \<Rightarrow> (r, self, w2)))
          else (Returns (), self, w1)
      | (Raises err, w1) \<Rightarrow> (Raises err, self, w1)
      | (Blocks, w1) \<Rightarrow> (Blocks, self, w1))"

text \<open>
  \<^verbatim>\<open>read\<close> returns \<^verbatim>\<open>None\<close> or what \<^verbatim>\<open>getch().decode('utf-8')\<close> or
  \<^verbatim>\<open>sys.stdin.read(1)\<close> returns.
\<close>

definition KeyReader_read :: "KeyReader \<Rightarrow> terminal \<Rightarrow> string option outcome \<times> terminal" where
  "KeyReader_read self w =
     (if sys_platform w = ''win32''
      then (if kbhit w
            then (case getch w of
                    (Returns b, w1) \<Rightarrow> (map_outcome Some (decode_utf8 b), w1)
                  | (Raises err, w1) \<Rightarrow> (Raises err, w1)
                  | (Blocks, w1) \<Rightarrow> (Blocks, w1))
            else (Returns None, w))
      else (if select_stdin w
            then (case stdin_read1 w of (r, w1) \<Rightarrow> (map_outcome Some r, w1))
            else (Returns None, w)))"

definition KeyReader_enter :: "KeyReader \<Rightarrow> terminal \<Rightarrow> unit outcome \<times> KeyReader \<times> terminal" where
  "KeyReader_enter self w = KeyReader_open self w"

definition KeyReader_exit :: "KeyReader \<Rightarrow> terminal \<Rightarrow> unit outcome \<times> KeyReader \<times> terminal" where
  "KeyReader_exit self w = KeyReader_close self w"

text \<open>
  \<^verbatim>\<open>with KeyReader(verbose) as key_reader: body\<close>. When \<^verbatim>\<open>__enter__\<close> raises, the body
  and \<^verbatim>\<open>__exit__\<close> are not run. Otherwise \<^verbatim>\<open>__exit__\<close> runs when the body is left, by its
  end or by an exception; it returns \<^verbatim>\<open>None\<close>, so an exception of the body goes on to the
  caller, unless \<^verbatim>\<open>__exit__\<close> raises one of its own. A body that waits forever is not left.
\<close>

definition with_KeyReader ::
  "bool \<Rightarrow> (KeyReader \<Rightarrow> terminal \<Rightarrow> 'r outcome \<times> KeyReader \<times> terminal) \<Rightarrow> terminal
   \<Rightarrow> 'r outcome \<times> KeyReader \<times> terminal" where
  "with_KeyReader v body w =
     (case KeyReader_enter (KeyReader_init v) w of
        (Returns u, self1, w1) \<Rightarrow>
          (case body self1 w1 of
             (Blocks, self2, w2) \<Rightarrow> (Blocks, self2, w2)
           | (r, self2, w2) \<Rightarrow>
               (case KeyReader_exit self2 w2 of
                  (Returns u, self3, w3) \<Rightarrow> (r, self3, w3)
                | (Raises err, self3, w3) \<Rightarrow> (Raises err, self3, w3)
                | (Blocks, self3, w3) \<Rightarrow> (Blocks, self3, w3)))
      | (Raises err, self1, w1) \<Rightarrow> (Raises err, self1, w1)
      | (Blocks, self1, w1) \<Rightarrow> (Blocks, self1, w1))"

text \<open>Calling \<^verbatim>\<open>read\<close> a number of times in a row, with the results in order.\<close>

fun read_times :: "nat \<Rightarrow> KeyReader \<Rightarrow> terminal \<Rightarrow> string option outcome list \<times> terminal" where
  "read_times 0 self w = ([], w)"
| "read_times (Suc n) self w =
     (case KeyReader_read self w of
        (r, w1) \<Rightarrow> (case read_times n self w1 of (rs, w2) \<Rightarrow> (r # rs, w2)))"

text \<open>
  What a call has done apart from printing: its outcome, the saved settings of the object,
  and the world with the printed lines left out.
\<close>

definition functional ::
  "'a outcome \<times> KeyReader \<times> terminal \<Rightarrow> 'a outcome \<times> termios option \<times> terminal" where
  "functional x = (case x of (r, self, w) \<Rightarrow> (r, old_settings self, w\<lparr>stdout := []\<rparr>))"

text \<open>
  Two worlds for the examples: a POSIX terminal in its usual line mode, and the same in
  cbreak mode as \<^verbatim>\<open>open\<close> leaves it; nothing is pending and every call succeeds.
\<close>

definition line_mode :: termios where
  "line_mode = \<lparr>echo = True, icanon = True, vmin = 1, vtime = 0, other = 7\<rparr>"

definition cbreak_mode :: termios where
  "cbreak_mode = \<lparr>echo = False, icanon = False, vmin = 1, vtime = 0, other = 7\<rparr>"

definition quiet_terminal :: "termios \<Rightarrow> terminal" where
  "quiet_terminal a =
     \<lparr>sys_platform = ''linux'', isatty = True, tcset_result = Returns (), attrs = a,
      fd_ready = [], fd_eof = False, undecoded = [], text_held = [], console = [],
      stdout = [], print_result = Returns ()\<rparr>"


section \<open>Properties of the debounced line input\<close>

subsection \<open>One pass of the loop\<close>

lemma wait_loop_eof:
  "pending e = [] \<Longrightarrow>
   wait_loop prompt mi e = (Inl EOFError, e\<lparr>shown := shown e @ [prompt]\<rparr>)"
  by (subst wait_loop.simps) (simp add: input_line_def)

lemma wait_loop_step:
  "pending e = (text, t) # rest \<Longrightarrow>
   wait_loop prompt mi e =
     (if accepted (stored (input_time e)) text t mi
      then (Inr text, attempted prompt e)
      else wait_loop prompt mi (attempted prompt e))"
  by (subst wait_loop.simps)
     (simp add: input_line_def time_time_def attempted_def Let_def)

lemma wait_loop_cons:
  "wait_loop prompt mi \<lparr>input_time = a, pending = (text, t) # rest, clock = c, shown = s\<rparr> =
     (if accepted (stored a) text t mi
      then (Inr text,
            \<lparr>input_time = Present (Some t), pending = rest, clock = t,
             shown = s @ [prompt]\<rparr>)
      else wait_loop prompt mi
            \<lparr>input_time = Present (Some t), pending = rest, clock = t,
             shown = s @ [prompt]\<rparr>)"
  using wait_loop_step
    [of "\<lparr>input_time = a, pending = (text, t) # rest, clock = c, shown = s\<rparr>"
        "text" t rest prompt mi]
  by (simp add: attempted_def)

lemma attempted_input_time:
  "pending e = (text, t) # rest \<Longrightarrow>
   attempted prompt (e\<lparr>input_time := a\<rparr>) = attempted prompt e"
  by (simp add: attempted_def)

lemma attempted_stamp:
  "pending e = (text, t) # rest \<Longrightarrow> input_time (attempted prompt e) = Present (Some t)"
  by (simp add: attempted_def)

lemma wait_for_enter_step:
  "pending e = (text, t) # rest \<Longrightarrow>
   wait_for_enter prompt mi e =
     (if accepted (stored (input_time e)) text t mi
      then (Inr text, attempted prompt e)
      else wait_for_enter prompt mi (attempted prompt e))"
  by (cases "input_time e")
     (simp_all add: wait_for_enter_def wait_loop_step stored_def attempted_input_time
        attempted_stamp)

lemma wait_loop_shows_more:
  "length (shown e) < length (shown (snd (wait_loop prompt mi e)))"
proof (induction "length (pending e)" arbitrary: e)
  case 0
  then show ?case by (simp add: wait_loop_eof)
next
  case (Suc n)
  then obtain line t rest where p: "pending e = (line, t) # rest"
    by (cases "pending e") auto
  have n: "n = length (pending (attempted prompt e))"
    using Suc.hyps(2) p by (simp add: attempted_def)
  have s: "length (shown e) < length (shown (attempted prompt e))"
    using p by (simp add: attempted_def)
  show ?case
  proof (cases "accepted (stored (input_time e)) line t mi")
    case True
    then show ?thesis using p s by (simp add: wait_loop_step)
  next
    case False
    then show ?thesis
      using p s Suc.hyps(1) [OF n] by (simp add: wait_loop_step)
  qed
qed

lemma wait_for_enter_shows_more:
  "length (shown e) < length (shown (snd (wait_for_enter prompt mi e)))"
proof (cases "input_time e")
  case Absent
  then show ?thesis
    using wait_loop_shows_more [of "e\<lparr>input_time := Present None\<rparr>" prompt mi]
    by (simp add: wait_for_enter_def)
next
  case (Present v)
  then show ?thesis
    using wait_loop_shows_more [of e prompt mi] by (simp add: wait_for_enter_def)
qed

lemma rejected_differs:
  "wait_for_enter prompt mi (attempted prompt e) \<noteq> (r, attempted prompt e)"
proof
  assume "wait_for_enter prompt mi (attempted prompt e) = (r, attempted prompt e)"
  then have "shown (snd (wait_for_enter prompt mi (attempted prompt e)))
             = shown (attempted prompt e)"
    by simp
  then show False
    using wait_for_enter_shows_more [of "attempted prompt e" prompt mi] by simp
qed

lemma accepted_spec: "accepted previous text now mi = spec_accepts previous text now mi"
  by (cases previous) (auto simp: accepted_def spec_accepts_def)

subsection \<open>What a call leaves behind\<close>

lemma wait_loop_consumes:
  "wait_loop prompt mi e = (r, e') \<Longrightarrow>
   \<exists>used. pending e = used @ pending e' \<and>
     input_time e' = (if used = [] then input_time e else Present (Some (snd (last used))))"
proof (induction "length (pending e)" arbitrary: e)
  case 0
  then show ?case by (auto simp: wait_loop_eof)
next
  case (Suc n)
  then obtain line t rest where p: "pending e = (line, t) # rest"
    by (cases "pending e") auto
  have n: "n = length (pending (attempted prompt e))"
    using Suc.hyps(2) p by (simp add: attempted_def)
  have a: "pending (attempted prompt e) = rest"
    using p by (simp add: attempted_def)
  show ?case
  proof (cases "accepted (stored (input_time e)) line t mi")
    case True
    then have "e' = attempted prompt e"
      using p Suc.prems by (simp add: wait_loop_step)
    then have "pending e = [(line, t)] @ pending e'"
      and "input_time e' = Present (Some (snd (last [(line, t)])))"
      using p by (simp_all add: attempted_def)
    then show ?thesis by (intro exI [of _ "[(line, t)]"]) simp
  next
    case False
    then have "wait_loop prompt mi (attempted prompt e) = (r, e')"
      using p Suc.prems by (simp add: wait_loop_step)
    from Suc.hyps(1) [OF n this] obtain used where
      u: "pending (attempted prompt e) = used @ pending e'"
      and i: "input_time e' =
        (if used = [] then input_time (attempted prompt e)
         else Present (Some (snd (last used))))"
      by blast
    have "pending e = ((line, t) # used) @ pending e'"
      using p a u by simp
    moreover have "input_time e' = Present (Some (snd (last ((line, t) # used))))"
      using i p by (simp add: attempted_stamp)
    ultimately show ?thesis by (intro exI [of _ "(line, t) # used"]) simp
  qed
qed

lemma wait_for_enter_consumes:
  "wait_for_enter prompt mi e = (r, e') \<Longrightarrow>
   \<exists>used. pending e = used @ pending e' \<and>
     input_time e' =
       Present (if used = [] then stored (input_time e) else Some (snd (last used)))"
proof (cases "input_time e")
  case Absent
  assume "wait_for_enter prompt mi e = (r, e')"
  then have "wait_loop prompt mi (e\<lparr>input_time := Present None\<rparr>) = (r, e')"
    using Absent by (simp add: wait_for_enter_def)
  from wait_loop_consumes [OF this] obtain used where
    u: "pending e = used @ pending e'"
    and i: "input_time e' =
      (if used = [] then Present None else Present (Some (snd (last used))))"
    by force
  have "input_time e' =
      Present (if used = [] then stored (input_time e) else Some (snd (last used)))"
    using i Absent by (simp add: stored_def)
  with u show ?thesis by blast
next
  case (Present v)
  assume "wait_for_enter prompt mi e = (r, e')"
  then have "wait_loop prompt mi e = (r, e')"
    using Present by (simp add: wait_for_enter_def)
  from wait_loop_consumes [OF this] obtain used where
    u: "pending e = used @ pending e'"
    and i: "input_time e' =
      (if used = [] then input_time e else Present (Some (snd (last used))))"
    by blast
  have "input_time e' =
      Present (if used = [] then stored (input_time e) else Some (snd (last used)))"
    using i Present by (simp add: stored_def)
  with u show ?thesis by blast
qed

lemma wait_for_enter_stamped:
  "stamped (input_time e) \<or> pending e \<noteq> [] \<Longrightarrow>
   stamped (input_time (snd (wait_for_enter prompt mi e)))"
proof -
  assume h: "stamped (input_time e) \<or> pending e \<noteq> []"
  obtain r e' where w: "wait_for_enter prompt mi e = (r, e')"
    by (cases "wait_for_enter prompt mi e")
  from wait_for_enter_consumes [OF w] obtain used where
    u: "pending e = used @ pending e'"
    and i: "input_time e' =
      Present (if used = [] then stored (input_time e) else Some (snd (last used)))"
    by blast
  show ?thesis
  proof (cases "used = []")
    case False
    then show ?thesis using i w by (simp add: stamped_def)
  next
    case True
    then have same: "pending e' = pending e" using u by simp
    have "length (pending e') < length (pending e) \<or> pending e = []"
    proof (cases "pending e")
      case Nil
      then show ?thesis by simp
    next
      case (Cons a rest)
      obtain line t where "a = (line, t)" by (cases a)
      with Cons have p: "pending e = (line, t) # rest" by simp
      have "\<exists>used2. rest = used2 @ pending e'"
      proof (cases "accepted (stored (input_time e)) line t mi")
        case True
        then have "e' = attempted prompt e"
          using w p by (simp add: wait_for_enter_step)
        then show ?thesis using p by (simp add: attempted_def)
      next
        case False
        then have "wait_for_enter prompt mi (attempted prompt e) = (r, e')"
          using w p by (simp add: wait_for_enter_step)
        from wait_for_enter_consumes [OF this] obtain used2 where
          "pending (attempted prompt e) = used2 @ pending e'" by blast
        then show ?thesis using p by (simp add: attempted_def)
      qed
      then obtain used2 where "rest = used2 @ pending e'" by blast
      then have "length (pending e') \<le> length rest" by simp
      then show ?thesis using p by simp
    qed
    then have "pending e = []" using same by simp
    then have "stamped (input_time e)" using h by simp
    then show ?thesis
      using i True w by (cases "input_time e") (simp_all add: stamped_def stored_def)
  qed
qed

lemma calls_stamped:
  "stamped (input_time e) \<Longrightarrow> stamped (input_time (calls cs e))"
proof (induction cs arbitrary: e)
  case Nil
  then show ?case by simp
next
  case (Cons c cs)
  obtain prompt mi where c: "c = (prompt, mi)" by (cases c)
  have "stamped (input_time (snd (wait_for_enter prompt mi e)))"
    using Cons.prems by (simp add: wait_for_enter_stamped)
  from Cons.IH [OF this] show ?case using c by simp
qed

subsection \<open>The claims about wait\_for\_enter\<close>

text \<open>
  C1. A line read by \<^verbatim>\<open>wait_for_enter\<close> is accepted, that is the call returns this
  line's text having read nothing after it, exactly when no time stamp was recorded before,
  or the text is not empty, or the time since the previous read attempt is at least
  \<^verbatim>\<open>minimum_interval\<close>. An empty line that meets none of the three is dropped without
  any output but the next prompt, and the call goes on as a call from the state after the
  attempt does: it prompts and reads again.
\<close>

theorem wait_for_enter_accepts_iff:
  assumes "pending e = (text, t) # rest"
  shows "(wait_for_enter prompt mi e = (Inr text, attempted prompt e))
           = spec_accepts (stored (input_time e)) text t mi
         \<and> (\<not> spec_accepts (stored (input_time e)) text t mi \<longrightarrow>
              text = [] \<and>
              wait_for_enter prompt mi e = wait_for_enter prompt mi (attempted prompt e) \<and>
              shown (attempted prompt e) = shown e @ [prompt] \<and>
              pending (attempted prompt e) = rest)"
proof (cases "spec_accepts (stored (input_time e)) text t mi")
  case True
  then show ?thesis
    using assms by (simp add: wait_for_enter_step accepted_spec)
next
  case False
  then have "text = []" by (simp add: spec_accepts_def)
  moreover have "wait_for_enter prompt mi e = wait_for_enter prompt mi (attempted prompt e)"
    using False assms by (simp add: wait_for_enter_step accepted_spec)
  moreover have "wait_for_enter prompt mi e \<noteq> (Inr text, attempted prompt e)"
    using calculation(2) rejected_differs [of prompt mi e "Inr text"] by simp
  moreover have "shown (attempted prompt e) = shown e @ [prompt]"
    and "pending (attempted prompt e) = rest"
    using assms by (simp_all add: attempted_def)
  ultimately show ?thesis using False by simp
qed

theorem wait_for_enter_accepts_iff_witness:
  "wait_for_enter ''> '' (8 / 10)
     \<lparr>input_time = Present (Some (0 :: real)),
      pending = [('''', 2 / 10), ('''', 12 / 10)], clock = 0, shown = []\<rparr>
   = wait_for_enter ''> '' (8 / 10)
     \<lparr>input_time = Present (Some (2 / 10)),
      pending = [('''', 12 / 10)], clock = 2 / 10, shown = [''> '']\<rparr>
   \<and> wait_for_enter ''> '' (8 / 10)
     \<lparr>input_time = Present (Some (2 / 10 :: real)),
      pending = [('''', 12 / 10)], clock = 2 / 10, shown = [''> '']\<rparr>
   = (Inr '''',
      \<lparr>input_time = Present (Some (12 / 10)),
       pending = [], clock = 12 / 10, shown = [''> '', ''> '']\<rparr>)"
proof -
  have rejected:
    "pending \<lparr>input_time = Present (Some (0 :: real)),
      pending = [('''', 2 / 10), ('''', 12 / 10)], clock = 0, shown = []\<rparr>
     = ('''', 2 / 10) # [('''', 12 / 10)]"
    by simp
  have taken:
    "pending \<lparr>input_time = Present (Some (2 / 10 :: real)),
      pending = [('''', 12 / 10)], clock = 2 / 10, shown = [''> '']\<rparr>
     = ('''', 12 / 10) # []"
    by simp
  show ?thesis
    using wait_for_enter_accepts_iff [OF rejected, of "''> ''" "8 / 10"]
      wait_for_enter_accepts_iff [OF taken, of "''> ''" "8 / 10"]
    by (simp add: spec_accepts_def stored_def attempted_def)
qed

text \<open>
  C5. A line that is not empty is never debounced: whatever the time stamps and the minimum
  interval are, the call returns it at once. With C1, only empty lines are ever dropped.
\<close>

theorem nonempty_line_never_debounced:
  "pending e = (text, t) # rest \<Longrightarrow> text \<noteq> [] \<Longrightarrow>
   wait_for_enter prompt mi e = (Inr text, attempted prompt e)"
  by (cases "stored (input_time e)") (simp_all add: wait_for_enter_step accepted_def)

theorem nonempty_line_never_debounced_witness:
  "wait_for_enter '''' (8 / 10)
     \<lparr>input_time = Present (Some (5 :: real)),
      pending = [(''hello'', 501 / 100)], clock = 5, shown = []\<rparr>
   = (Inr ''hello'',
      \<lparr>input_time = Present (Some (501 / 100)),
       pending = [], clock = 501 / 100, shown = ['''']\<rparr>)"
proof -
  have "pending \<lparr>input_time = Present (Some (5 :: real)),
      pending = [(''hello'', 501 / 100)], clock = 5, shown = []\<rparr>
     = (''hello'', 501 / 100) # []"
    by simp
  from nonempty_line_never_debounced [OF this, of "''''" "8 / 10"]
  show ?thesis by (simp add: attempted_def)
qed

text \<open>
  C4. Every read attempt stores the current time in the attribute, whether the line is
  accepted or rejected, and before the outcome of the decision takes effect: the state a
  call returns and the state the loop continues from are the same state, and it holds the
  time of the attempt. So when a call ends, by a return or at the end of the input, the
  attribute holds the time of the last line the call has read; it is \<^verbatim>\<open>None\<close> only when
  it was absent or \<^verbatim>\<open>None\<close> before and the call has read no line at all.
\<close>

theorem timestamp_updated_on_every_attempt:
  "(pending e = (text, t) # rest \<longrightarrow>
      input_time (attempted prompt e) = Present (Some t) \<and>
      wait_for_enter prompt mi e =
        (if accepted (stored (input_time e)) text t mi
         then (Inr text, attempted prompt e)
         else wait_for_enter prompt mi (attempted prompt e)))
   \<and> (wait_for_enter prompt mi e = (r, e') \<longrightarrow>
      (\<exists>used. pending e = used @ pending e' \<and>
         input_time e' =
           Present (if used = [] then stored (input_time e) else Some (snd (last used)))))"
  using wait_for_enter_consumes [of prompt mi e r e']
  by (simp add: attempted_stamp wait_for_enter_step)

theorem timestamp_updated_on_every_attempt_witness:
  "input_time (attempted ''> ''
     \<lparr>input_time = Present (Some (0 :: real)),
      pending = [('''', 2 / 10), ('''', 3 / 10)], clock = 0, shown = []\<rparr>)
   = Present (Some (2 / 10))
   \<and> wait_for_enter ''> '' (8 / 10)
     \<lparr>input_time = Present (Some (0 :: real)),
      pending = [('''', 2 / 10), ('''', 3 / 10)], clock = 0, shown = []\<rparr>
   = (Inl EOFError,
      \<lparr>input_time = Present (Some (3 / 10)),
       pending = [], clock = 3 / 10, shown = [''> '', ''> '', ''> '']\<rparr>)"
proof -
  let ?e0 = "\<lparr>input_time = Present (Some (0 :: real)),
      pending = [('''', 2 / 10), ('''', 3 / 10)], clock = 0, shown = []\<rparr>"
  let ?e1 = "\<lparr>input_time = Present (Some (2 / 10 :: real)),
      pending = [('''', 3 / 10)], clock = 2 / 10, shown = [''> '']\<rparr>"
  let ?e2 = "\<lparr>input_time = Present (Some (3 / 10 :: real)),
      pending = [], clock = 3 / 10, shown = [''> '', ''> '']\<rparr>"
  have a0: "attempted ''> '' ?e0 = ?e1" and a1: "attempted ''> '' ?e1 = ?e2"
    by (simp_all add: attempted_def)
  have last: "wait_for_enter ''> '' (8 / 10) ?e2
    = (Inl EOFError, ?e2\<lparr>shown := [''> '', ''> '', ''> '']\<rparr>)"
    by (simp add: wait_for_enter_def wait_loop_eof)
  have s0: "wait_for_enter ''> '' (8 / 10) ?e0 = wait_for_enter ''> '' (8 / 10) ?e1"
    using timestamp_updated_on_every_attempt
      [of ?e0 "''''" "2 / 10" "[('''', 3 / 10)]" "''> ''" "8 / 10"] a0
    by (simp add: accepted_def stored_def)
  have s1: "wait_for_enter ''> '' (8 / 10) ?e1 = wait_for_enter ''> '' (8 / 10) ?e2"
    using timestamp_updated_on_every_attempt
      [of ?e1 "''''" "3 / 10" "[]" "''> ''" "8 / 10"] a1
    by (simp add: accepted_def stored_def)
  show ?thesis using a0 s0 s1 last by simp
qed

text \<open>
  C6. With a minimum interval of 0.8 and a fresh state, empty lines submitted at the times
  0, 0.2, 0.3 and 1.2 give exactly two accepted submissions: the first call returns the line
  of time 0 (first-call rule) and leaves the other three unread; the second call drops the
  lines of 0.2 (0.2 after 0) and 0.3 (0.1 after 0.2), each compared with the attempt just
  before it, and returns the line of 1.2 (0.9 after 0.3). Nothing is left to read.
\<close>

theorem scenario_two_accepted:
  "wait_for_enter prompt (8 / 10)
     \<lparr>input_time = Absent,
      pending = [('''', 0 :: real), ('''', 2 / 10), ('''', 3 / 10), ('''', 12 / 10)],
      clock = 0, shown = []\<rparr>
   = (Inr '''',
      \<lparr>input_time = Present (Some 0),
       pending = [('''', 2 / 10), ('''', 3 / 10), ('''', 12 / 10)],
       clock = 0, shown = [prompt]\<rparr>)
   \<and> wait_for_enter prompt (8 / 10)
     \<lparr>input_time = Present (Some (0 :: real)),
      pending = [('''', 2 / 10), ('''', 3 / 10), ('''', 12 / 10)],
      clock = 0, shown = [prompt]\<rparr>
   = (Inr '''',
      \<lparr>input_time = Present (Some (12 / 10)),
       pending = [],
       clock = 12 / 10, shown = [prompt, prompt, prompt, prompt]\<rparr>)"
  by (simp add: wait_for_enter_def wait_loop_cons accepted_def stored_def)

text \<open>
  C10. Once a call has made a read attempt, the attribute holds a time stamp when the call
  ends, and no later call, however many follow, makes it \<^verbatim>\<open>None\<close> again. From then on
  \<^verbatim>\<open>previous_time\<close> is never \<^verbatim>\<open>None\<close>, so a line is accepted by its text or by the
  elapsed time only: the first-call branch cannot fire after the very first attempt.
\<close>

theorem stamp_never_none_again:
  "(pending e \<noteq> [] \<longrightarrow> stamped (input_time (snd (wait_for_enter prompt mi e))))
   \<and> (stamped (input_time e) \<longrightarrow>
        stamped (input_time (snd (wait_for_enter prompt mi e))) \<and>
        stamped (input_time (calls cs e)) \<and>
        stored (input_time e) \<noteq> None \<and>
        accepted (stored (input_time e)) text t mi
          = (0 < length text \<or> mi \<le> t - the (stored (input_time e))))"
proof -
  have "stored (input_time e) \<noteq> None \<and>
        accepted (stored (input_time e)) text t mi
          = (0 < length text \<or> mi \<le> t - the (stored (input_time e)))"
    if "stamped (input_time e)"
    using that by (cases "input_time e") (auto simp: stamped_def stored_def accepted_def)
  then show ?thesis
    by (simp add: wait_for_enter_stamped calls_stamped)
qed

theorem stamp_never_none_again_witness:
  "stamped (input_time (snd (wait_for_enter ''> '' (8 / 10)
     \<lparr>input_time = Absent, pending = [('''', 0 :: real)], clock = 0, shown = []\<rparr>)))
   \<and> stamped (input_time (calls [(''> '', 8 / 10), (''> '', 8 / 10)]
     \<lparr>input_time = Present (Some (0 :: real)), pending = [('''', 2 / 10)],
      clock = 0, shown = [''> '']\<rparr>))
   \<and> \<not> accepted (stored (Present (Some (0 :: real)))) '''' (2 / 10) (8 / 10)"
proof -
  let ?e0 = "\<lparr>input_time = Absent, pending = [('''', 0 :: real)], clock = 0, shown = []\<rparr>"
  let ?e1 = "\<lparr>input_time = Present (Some (0 :: real)), pending = [('''', 2 / 10)],
      clock = 0, shown = [''> '']\<rparr>"
  have first: "stamped (input_time (snd (wait_for_enter ''> '' (8 / 10) ?e0)))"
    using stamp_never_none_again [of ?e0 "''> ''" "8 / 10"] by simp
  have later: "stamped (input_time (calls [(''> '', 8 / 10), (''> '', 8 / 10)] ?e1))
    \<and> \<not> accepted (stored (input_time ?e1)) '''' (2 / 10) (8 / 10)"
    using stamp_never_none_again
      [of ?e1 "''> ''" "8 / 10" "[(''> '', 8 / 10), (''> '', 8 / 10)]" "''''" "2 / 10"]
    by (simp add: stamped_def stored_def)
  show ?thesis using first later by simp
qed


section \<open>Properties of the keypress reader\<close>

subsection \<open>The library calls\<close>

lemma tcsetattr_attrs:
  "fst (tcsetattr when a w) = Returns () \<Longrightarrow> attrs (snd (tcsetattr when a w)) = a"
  by (cases "tcset_result w") (simp_all add: tcsetattr_def split: if_splits)

subsection \<open>The text stream\<close>

lemma stdin_read1_held:
  "text_held w = c # cs \<Longrightarrow> stdin_read1 w = (Returns c, w\<lparr>text_held := cs\<rparr>)"
  by (subst stdin_read1.simps) simp

lemma stdin_read1_wait:
  "text_held w = [] \<Longrightarrow> fd_ready w = [] \<Longrightarrow> \<not> fd_eof w \<Longrightarrow> stdin_read1 w = (Blocks, w)"
  by (subst stdin_read1.simps) simp

lemma stdin_read1_end:
  "text_held w = [] \<Longrightarrow> fd_ready w = [] \<Longrightarrow> fd_eof w \<Longrightarrow>
   stdin_read1 w =
     (if undecoded w = [] then Returns [] else Raises UnicodeDecodeError, w)"
  by (subst stdin_read1.simps) simp

lemma stdin_read1_chunk:
  "text_held w = [] \<Longrightarrow> fd_ready w \<noteq> [] \<Longrightarrow>
   stdin_read1 w =
     (case utf8_split (undecoded w @ take 8192 (fd_ready w)) of
        None \<Rightarrow> (Raises UnicodeDecodeError, w\<lparr>fd_ready := drop 8192 (fd_ready w)\<rparr>)
      | Some ([], rest) \<Rightarrow>
          stdin_read1 (w\<lparr>fd_ready := drop 8192 (fd_ready w), undecoded := rest\<rparr>)
      | Some (c # cs, rest) \<Rightarrow>
          (Returns c,
           w\<lparr>fd_ready := drop 8192 (fd_ready w), undecoded := rest, text_held := cs\<rparr>))"
  by (subst stdin_read1.simps) simp

text \<open>Plain bytes, below 128, are characters of their own.\<close>

lemma utf8_first_plain: "of_char b < (128 :: nat) \<Longrightarrow> utf8_first b bs = Whole 1"
  by (simp add: utf8_first_def utf8_need_def)

lemma utf8_split_plain:
  "list_all (\<lambda>b. of_char b < (128 :: nat)) bs \<Longrightarrow>
   utf8_split bs = Some (map (\<lambda>b. [b]) bs, [])"
  by (induction bs) (simp_all add: utf8_first_plain)

subsection \<open>read\<close>

lemma read_win32_empty:
  "sys_platform w = ''win32'' \<Longrightarrow> console w = [] \<Longrightarrow>
   KeyReader_read self w = (Returns None, w)"
  by (simp add: KeyReader_read_def kbhit_def)

lemma read_win32_key:
  "sys_platform w = ''win32'' \<Longrightarrow> console w = b # bs \<Longrightarrow>
   KeyReader_read self w =
     (if of_char b < (128 :: nat) then Returns (Some [b]) else Raises UnicodeDecodeError,
      w\<lparr>console := bs\<rparr>)"
  by (simp add: KeyReader_read_def kbhit_def getch_def decode_utf8_def)

text \<open>The console path never waits: \<^verbatim>\<open>getch\<close> is called only after \<^verbatim>\<open>kbhit\<close> has seen a key.\<close>

lemma read_win32_never_waits:
  "sys_platform w = ''win32'' \<Longrightarrow> fst (KeyReader_read self w) \<noteq> Blocks"
  by (cases "console w") (simp_all add: read_win32_empty read_win32_key)

lemma read_posix_idle:
  "sys_platform w \<noteq> ''win32'' \<Longrightarrow> fd_ready w = [] \<Longrightarrow> \<not> fd_eof w \<Longrightarrow>
   KeyReader_read self w = (Returns None, w)"
  by (simp add: KeyReader_read_def select_stdin_def)

lemma read_posix_ready:
  "sys_platform w \<noteq> ''win32'' \<Longrightarrow> fd_ready w \<noteq> [] \<or> fd_eof w \<Longrightarrow>
   KeyReader_read self w =
     (map_outcome Some (fst (stdin_read1 w)), snd (stdin_read1 w))"
  by (simp add: KeyReader_read_def select_stdin_def split: prod.splits)

text \<open>At the end of the input \<^verbatim>\<open>read\<close> returns the empty string, not \<^verbatim>\<open>None\<close>.\<close>

lemma read_posix_end:
  "sys_platform w \<noteq> ''win32'' \<Longrightarrow> fd_ready w = [] \<Longrightarrow> fd_eof w \<Longrightarrow>
   text_held w = [] \<Longrightarrow> undecoded w = [] \<Longrightarrow>
   KeyReader_read self w = (Returns (Some []), w)"
  by (simp add: read_posix_ready stdin_read1_end)

text \<open>
  A run of plain bytes that is ready at the descriptor: the first call takes all of it into
  the text stream and returns the first character.
\<close>

lemma read_posix_fetch:
  assumes "sys_platform w \<noteq> ''win32''" and "fd_ready w = c # cs"
    and "length (c # cs) \<le> 8192" and "list_all (\<lambda>b. of_char b < (128 :: nat)) (c # cs)"
    and "text_held w = []" and "undecoded w = []"
  shows "KeyReader_read self w =
     (Returns (Some [c]),
      w\<lparr>fd_ready := [], undecoded := [], text_held := map (\<lambda>b. [b]) cs\<rparr>)"
proof -
  have t: "take 8192 (fd_ready w) = c # cs" and d: "drop 8192 (fd_ready w) = []"
    using assms(2,3) by simp_all
  have "utf8_split (undecoded w @ take 8192 (fd_ready w))
        = Some ([c] # map (\<lambda>b. [b]) cs, [])"
    using utf8_split_plain [OF assms(4)] t assms(6) by simp
  then have "stdin_read1 w =
     (Returns [c], w\<lparr>fd_ready := [], undecoded := [], text_held := map (\<lambda>b. [b]) cs\<rparr>)"
    using assms(2,5) d by (simp add: stdin_read1_chunk)
  then show ?thesis
    using assms(1,2) by (simp add: read_posix_ready)
qed

text \<open>
  On the console path a run of plain key bytes is handed out one byte a call, in order, and
  the call after the last one finds nothing.
\<close>

lemma read_times_win32:
  "sys_platform w = ''win32'' \<Longrightarrow> console w = bs \<Longrightarrow>
   list_all (\<lambda>b. of_char b < (128 :: nat)) bs \<Longrightarrow>
   read_times (length bs) self w = (map (\<lambda>b. Returns (Some [b])) bs, w\<lparr>console := []\<rparr>)"
proof (induction bs arbitrary: w)
  case Nil
  then show ?case by simp
next
  case (Cons b bs)
  have r: "KeyReader_read self w = (Returns (Some [b]), w\<lparr>console := bs\<rparr>)"
    using Cons.prems by (simp add: read_win32_key)
  have "read_times (length bs) self (w\<lparr>console := bs\<rparr>)
        = (map (\<lambda>b. Returns (Some [b])) bs, w\<lparr>console := bs, console := []\<rparr>)"
    using Cons.prems by (intro Cons.IH) simp_all
  then show ?case using r by simp
qed

text \<open>
  On the POSIX path the first call takes everything the descriptor has ready into the text
  stream and returns the first character; while nothing new arrives, every later call finds
  the descriptor empty and returns \<^verbatim>\<open>None\<close>, whatever the text stream still holds.
\<close>

lemma read_times_posix_idle:
  "sys_platform w \<noteq> ''win32'' \<Longrightarrow> fd_ready w = [] \<Longrightarrow> \<not> fd_eof w \<Longrightarrow>
   read_times n self w = (replicate n (Returns None), w)"
  by (induction n) (simp_all add: read_posix_idle)

lemma read_times_posix:
  assumes "sys_platform w \<noteq> ''win32''" and "fd_ready w = c # cs"
    and "length (c # cs) \<le> 8192" and "list_all (\<lambda>b. of_char b < (128 :: nat)) (c # cs)"
    and "text_held w = []" and "undecoded w = []" and "\<not> fd_eof w"
  shows "read_times (Suc n) self w =
     (Returns (Some [c]) # replicate n (Returns None),
      w\<lparr>fd_ready := [], undecoded := [], text_held := map (\<lambda>b. [b]) cs\<rparr>)"
  using assms(1,7) read_posix_fetch [OF assms(1-6), of self]
  by (simp add: read_times_posix_idle)

lemma stdin_read1_stdout: "stdout (snd (stdin_read1 w)) = stdout w"
proof (induction w rule: stdin_read1.induct)
  case (1 w)
  show ?case
  proof (cases "text_held w")
    case (Cons c cs)
    then show ?thesis by (simp add: stdin_read1_held)
  next
    case Nil
    show ?thesis
    proof (cases "fd_ready w = []")
      case True
      then show ?thesis
        using Nil by (cases "fd_eof w") (simp_all add: stdin_read1_end stdin_read1_wait)
    next
      case False
      show ?thesis
      proof (cases "utf8_split (undecoded w @ take 8192 (fd_ready w))")
        case None
        then show ?thesis using Nil False by (simp add: stdin_read1_chunk)
      next
        case (Some p)
        obtain chars rest where p: "p = (chars, rest)" by (cases p)
        show ?thesis
        proof (cases chars)
          case Nil2: Nil
          have "stdout (snd (stdin_read1
                  (w\<lparr>fd_ready := drop 8192 (fd_ready w), undecoded := rest\<rparr>))) = stdout w"
            using "1.IH" [OF Nil False Some [unfolded p Nil2] refl refl] by simp
          then show ?thesis
            using Nil False Some p Nil2 by (simp add: stdin_read1_chunk)
        next
          case (Cons c cs)
          then show ?thesis using Nil False Some p by (simp add: stdin_read1_chunk)
        qed
      qed
    qed
  qed
qed

lemma read_stdout: "stdout (snd (KeyReader_read self w)) = stdout w"
proof (cases "sys_platform w = ''win32''")
  case True
  then show ?thesis
    by (cases "console w") (simp_all add: read_win32_empty read_win32_key)
next
  case False
  then show ?thesis
    by (cases "fd_ready w \<noteq> [] \<or> fd_eof w")
       (auto simp: read_posix_ready read_posix_idle stdin_read1_stdout)
qed

subsection \<open>open and close\<close>

lemma open_unprinted:
  "verbose self \<Longrightarrow> print_result w \<noteq> Returns () \<Longrightarrow>
   KeyReader_open self w = (map_outcome id (print_result w), self, w)"
  by (cases "print_result w") (simp_all add: KeyReader_open_def print_line_def)

lemma close_unprinted:
  "verbose self \<Longrightarrow> print_result w \<noteq> Returns () \<Longrightarrow>
   KeyReader_close self w = (map_outcome id (print_result w), self, w)"
  by (cases "print_result w") (simp_all add: KeyReader_close_def print_line_def)

lemma open_printed:
  "verbose self \<longrightarrow> print_result w = Returns () \<Longrightarrow>
   KeyReader_open self w =
     (let w1 = (if verbose self then w\<lparr>stdout := stdout w @ [''KeyReader: Opening...'']\<rparr>
                else w)
      in if sys_platform w \<noteq> ''win32''
         then (if isatty w
               then (fst (setcbreak w1), self\<lparr>old_settings := Some (attrs w)\<rparr>,
                     snd (setcbreak w1))
               else (Raises TermiosError, self, w1))
         else (Returns (), self, w1))"
  by (cases "verbose self")
     (simp_all add: KeyReader_open_def print_line_def tcgetattr_def split: prod.splits)

lemma close_printed:
  "verbose self \<longrightarrow> print_result w = Returns () \<Longrightarrow>
   KeyReader_close self w =
     (let w1 = (if verbose self then w\<lparr>stdout := stdout w @ [''KeyReader: Closing...'']\<rparr>
                else w)
      in if sys_platform w \<noteq> ''win32''
         then (case old_settings self of
                 None \<Rightarrow> (Raises AttributeError, self, w1)
               | Some a \<Rightarrow>
                   (fst (tcsetattr TCSADRAIN a w1), self, snd (tcsetattr TCSADRAIN a w1)))
         else (Returns (), self, w1))"
  by (cases "verbose self")
     (simp_all add: KeyReader_close_def print_line_def split: prod.splits option.splits)

lemma setcbreak_keeps_stdout: "stdout (snd (setcbreak w)) = stdout w"
  by (cases "tcset_result w")
     (simp_all add: setcbreak_def tcgetattr_def tcsetattr_def)

lemma tcsetattr_keeps_stdout: "stdout (snd (tcsetattr when a w)) = stdout w"
  by (cases "tcset_result w") (simp_all add: tcsetattr_def)

text \<open>
  Where \<^verbatim>\<open>open\<close> assigns the field: on the POSIX path, once its line, if any, is printed
  and \<^verbatim>\<open>tcgetattr\<close> has returned; the value is the attributes of that moment.
\<close>

lemma open_saves:
  "old_settings (fst (snd (KeyReader_open self w))) =
     (if sys_platform w \<noteq> ''win32'' \<and> (verbose self \<longrightarrow> print_result w = Returns ()) \<and>
         isatty w
      then Some (attrs w) else old_settings self)"
proof (cases "verbose self \<longrightarrow> print_result w = Returns ()")
  case True
  then show ?thesis by (simp add: open_printed Let_def)
next
  case False
  then show ?thesis by (simp add: open_unprinted)
qed

lemma open_returned:
  "sys_platform w \<noteq> ''win32'' \<Longrightarrow> fst (KeyReader_open self w) = Returns () \<Longrightarrow>
   (verbose self \<longrightarrow> print_result w = Returns ()) \<and> isatty w"
proof (cases "verbose self \<longrightarrow> print_result w = Returns ()")
  case True
  assume "sys_platform w \<noteq> ''win32''" "fst (KeyReader_open self w) = Returns ()"
  then show ?thesis
    using True by (cases "isatty w") (simp_all add: open_printed Let_def)
next
  case False
  assume "fst (KeyReader_open self w) = Returns ()"
  then show ?thesis
    using False by (cases "print_result w") (simp_all add: open_unprinted)
qed

lemma close_returned:
  "sys_platform w \<noteq> ''win32'' \<Longrightarrow> old_settings self = Some a \<Longrightarrow>
   fst (KeyReader_close self w) = Returns () \<Longrightarrow>
   attrs (snd (snd (KeyReader_close self w))) = a"
proof (cases "verbose self \<longrightarrow> print_result w = Returns ()")
  case True
  assume "sys_platform w \<noteq> ''win32''" "old_settings self = Some a"
    "fst (KeyReader_close self w) = Returns ()"
  then show ?thesis
    using True by (simp add: close_printed Let_def tcsetattr_attrs)
next
  case False
  assume "fst (KeyReader_close self w) = Returns ()"
  then show ?thesis
    using False by (cases "print_result w") (simp_all add: close_unprinted)
qed

subsection \<open>The claims about KeyReader\<close>

text \<open>
  C2. Characters that are already buffered on standard input should come out of successive
  \<^verbatim>\<open>read\<close> calls one at a time and in order, with \<^verbatim>\<open>None\<close> after the last. On the POSIX
  path this fails as soon as two characters are ready: the first \<^verbatim>\<open>read\<close> returns
  \<^verbatim>\<open>'a'\<close>, and \<^verbatim>\<open>sys.stdin.read(1)\<close> has moved \<^verbatim>\<open>'b'\<close> into the buffer of the text
  stream on the way; \<^verbatim>\<open>select\<close> looks at the descriptor, finds nothing, and the second
  and third \<^verbatim>\<open>read\<close> return \<^verbatim>\<open>None\<close> while \<^verbatim>\<open>'b'\<close> is still held.
\<close>

theorem posix_read_strands_buffered_input:
  "read_times 3 (KeyReader_init False)
     \<lparr>sys_platform = ''linux'', isatty = True, tcset_result = Returns (),
      attrs = \<lparr>echo = False, icanon = False, vmin = 1, vtime = 0, other = 0\<rparr>,
      fd_ready = ''ab'', fd_eof = False, undecoded = [], text_held = [], console = [],
      stdout = [], print_result = Returns ()\<rparr>
   = ([Returns (Some ''a''), Returns None, Returns None],
      \<lparr>sys_platform = ''linux'', isatty = True, tcset_result = Returns (),
       attrs = \<lparr>echo = False, icanon = False, vmin = 1, vtime = 0, other = 0\<rparr>,
       fd_ready = [], fd_eof = False, undecoded = [], text_held = [''b''], console = [],
       stdout = [], print_result = Returns ()\<rparr>)"
  by (simp add: numeral_3_eq_3 read_posix_fetch read_posix_idle)

text \<open>
  C7. \<^verbatim>\<open>read\<close> should never wait. On the POSIX path it does when the first byte of a
  character of several bytes is ready and the rest is not: with the one byte C3 at the
  descriptor \<^verbatim>\<open>select\<close> reports standard input ready, and \<^verbatim>\<open>sys.stdin.read(1)\<close> takes
  the byte, has no whole character yet, and waits for more bytes. The readiness that
  \<^verbatim>\<open>select\<close> reports is that of a byte, the read is that of a character.
\<close>

theorem posix_read_waits_for_rest_of_character:
  "KeyReader_read (KeyReader_init False)
     \<lparr>sys_platform = ''linux'', isatty = True, tcset_result = Returns (),
      attrs = \<lparr>echo = False, icanon = False, vmin = 1, vtime = 0, other = 0\<rparr>,
      fd_ready = [CHR 0xC3], fd_eof = False, undecoded = [], text_held = [], console = [],
      stdout = [], print_result = Returns ()\<rparr>
   = (Blocks,
      \<lparr>sys_platform = ''linux'', isatty = True, tcset_result = Returns (),
       attrs = \<lparr>echo = False, icanon = False, vmin = 1, vtime = 0, other = 0\<rparr>,
       fd_ready = [], fd_eof = False, undecoded = [CHR 0xC3], text_held = [], console = [],
       stdout = [], print_result = Returns ()\<rparr>)"
  by (simp add: read_posix_ready stdin_read1_chunk stdin_read1_wait
        utf8_first_def utf8_need_def utf8_cont_def)

text \<open>
  C3, as stated: after \<^verbatim>\<open>close\<close> the terminal has the attributes saved by the last
  \<^verbatim>\<open>open\<close>, on every way out of a \<^verbatim>\<open>with\<close> statement. This fails when \<^verbatim>\<open>close\<close> does
  not get as far as \<^verbatim>\<open>tcsetattr\<close>: its \<^verbatim>\<open>print\<close> comes first. Here the reader is
  verbose, the body loses standard output (the reader of the pipe has gone) and is left by
  the exception; \<^verbatim>\<open>__exit__\<close> calls \<^verbatim>\<open>close\<close>, whose \<^verbatim>\<open>print\<close> raises, and the terminal
  stays in cbreak mode.
\<close>

theorem close_restores_snapshot_counterexample:
  "fst (with_KeyReader True
          (\<lambda>self w. (Raises BrokenPipeError :: unit outcome, self,
                      w\<lparr>print_result := Raises BrokenPipeError\<rparr>))
          (quiet_terminal line_mode)) = Raises BrokenPipeError
   \<and> attrs (snd (snd (with_KeyReader True
          (\<lambda>self w. (Raises BrokenPipeError :: unit outcome, self,
                      w\<lparr>print_result := Raises BrokenPipeError\<rparr>))
          (quiet_terminal line_mode)))) = cbreak_mode
   \<and> attrs (quiet_terminal line_mode) = line_mode
   \<and> cbreak_mode \<noteq> line_mode"
  by (simp add: with_KeyReader_def KeyReader_enter_def KeyReader_exit_def KeyReader_init_def
        open_printed close_unprinted setcbreak_def tcgetattr_def tcsetattr_def
        quiet_terminal_def line_mode_def cbreak_mode_def)

text \<open>
  C3, amended. On the POSIX path an \<^verbatim>\<open>open\<close> that returns has saved the attributes of the
  terminal as they were, and a \<^verbatim>\<open>close\<close> that returns has put the saved attributes back,
  whatever has happened to the terminal in between.
  In a \<^verbatim>\<open>with\<close> statement \<^verbatim>\<open>__exit__\<close> calls \<^verbatim>\<open>close\<close> on every way out of the body, by
  its end and by an exception alike: what the statement leaves behind is what that
  \<^verbatim>\<open>close\<close> leaves behind, and when it returns and the body has left the saved settings of
  the object alone, the terminal has the attributes it had before the statement. On the
  console path neither \<^verbatim>\<open>open\<close> nor \<^verbatim>\<open>close\<close> touches them.
\<close>

theorem close_restores_when_it_returns:
  "(sys_platform w \<noteq> ''win32'' \<and> fst (KeyReader_open self w) = Returns () \<longrightarrow>
      old_settings (fst (snd (KeyReader_open self w))) = Some (attrs w))
   \<and> (sys_platform w \<noteq> ''win32'' \<and> old_settings self = Some a \<and>
      fst (KeyReader_close self w) = Returns () \<longrightarrow>
      attrs (snd (snd (KeyReader_close self w))) = a)
   \<and> (sys_platform w \<noteq> ''win32'' \<and>
      KeyReader_enter (KeyReader_init v) w = (Returns (), self1, w1) \<and>
      body self1 w1 = (r, self2, w2) \<and> r \<noteq> Blocks \<and>
      old_settings self2 = old_settings self1 \<and>
      sys_platform w2 = sys_platform w \<longrightarrow>
      snd (with_KeyReader v body w) = snd (KeyReader_exit self2 w2) \<and>
      (fst (KeyReader_exit self2 w2) = Returns () \<longrightarrow>
         fst (with_KeyReader v body w) = r \<and>
         attrs (snd (snd (with_KeyReader v body w))) = attrs w))
   \<and> (sys_platform w = ''win32'' \<longrightarrow>
      attrs (snd (snd (KeyReader_open self w))) = attrs w \<and>
      attrs (snd (snd (KeyReader_close self w))) = attrs w)"
proof -
  have opened: "old_settings (fst (snd (KeyReader_open self w))) = Some (attrs w)"
    if "sys_platform w \<noteq> ''win32''" "fst (KeyReader_open self w) = Returns ()"
    using that open_returned [OF that] by (simp add: open_saves)
  have closed: "attrs (snd (snd (KeyReader_close self w))) = a"
    if "sys_platform w \<noteq> ''win32''" "old_settings self = Some a"
      "fst (KeyReader_close self w) = Returns ()"
    using that by (rule close_returned)
  have scoped: "snd (with_KeyReader v body w) = snd (KeyReader_exit self2 w2) \<and>
      (fst (KeyReader_exit self2 w2) = Returns () \<longrightarrow>
         fst (with_KeyReader v body w) = r \<and>
         attrs (snd (snd (with_KeyReader v body w))) = attrs w)"
    if p: "sys_platform w \<noteq> ''win32''"
      and e: "KeyReader_enter (KeyReader_init v) w = (Returns (), self1, w1)"
      and b: "body self1 w1 = (r, self2, w2)" and nb: "r \<noteq> Blocks"
      and o: "old_settings self2 = old_settings self1"
      and p2: "sys_platform w2 = sys_platform w"
  proof -
    have "fst (KeyReader_open (KeyReader_init v) w) = Returns ()"
      and s: "self1 = fst (snd (KeyReader_open (KeyReader_init v) w))"
      using e by (simp_all add: KeyReader_enter_def)
    from open_returned [OF p this(1)] have s1: "old_settings self1 = Some (attrs w)"
      using p s by (simp add: open_saves)
    obtain x self3 w3 where x: "KeyReader_exit self2 w2 = (x, self3, w3)"
      by (cases "KeyReader_exit self2 w2")
    have left: "snd (with_KeyReader v body w) = (self3, w3)"
      using e b nb x by (cases r; cases x) (simp_all add: with_KeyReader_def)
    have restored: "fst (with_KeyReader v body w) = r \<and> attrs w3 = attrs w"
      if "x = Returns ()"
    proof -
      have "attrs (snd (snd (KeyReader_close self2 w2))) = attrs w"
        using p p2 o s1 x that
        by (intro close_returned) (simp_all add: KeyReader_exit_def)
      moreover have "fst (with_KeyReader v body w) = r"
        using e b nb x that by (cases r) (simp_all add: with_KeyReader_def)
      ultimately show ?thesis using x by (simp add: KeyReader_exit_def)
    qed
    show ?thesis using left restored x by simp
  qed
  have untouched: "attrs (snd (snd (KeyReader_open self w))) = attrs w \<and>
      attrs (snd (snd (KeyReader_close self w))) = attrs w"
    if "sys_platform w = ''win32''"
  proof (cases "verbose self \<longrightarrow> print_result w = Returns ()")
    case True
    then show ?thesis using that by (simp add: open_printed close_printed)
  next
    case False
    then show ?thesis by (simp add: open_unprinted close_unprinted)
  qed
  show ?thesis
    using opened closed scoped untouched by blast
qed

theorem close_restores_when_it_returns_witness:
  "fst (with_KeyReader True
          (\<lambda>self w. (Raises KeyboardInterrupt :: unit outcome, self,
                      w\<lparr>attrs := (attrs w)\<lparr>other := 99\<rparr>\<rparr>))
          (quiet_terminal line_mode)) = Raises KeyboardInterrupt
   \<and> attrs (snd (snd (with_KeyReader True
          (\<lambda>self w. (Raises KeyboardInterrupt :: unit outcome, self,
                      w\<lparr>attrs := (attrs w)\<lparr>other := 99\<rparr>\<rparr>))
          (quiet_terminal line_mode)))) = line_mode"
proof -
  let ?w = "quiet_terminal line_mode"
  let ?self1 = "\<lparr>verbose = True, old_settings = Some line_mode\<rparr>"
  let ?w1 = "(quiet_terminal cbreak_mode)\<lparr>stdout := [''KeyReader: Opening...'']\<rparr>"
  let ?w2 = "?w1\<lparr>attrs := (attrs ?w1)\<lparr>other := 99\<rparr>\<rparr>"
  let ?body = "\<lambda>self w. (Raises KeyboardInterrupt :: unit outcome, self,
                      w\<lparr>attrs := (attrs w)\<lparr>other := 99\<rparr>\<rparr>)"
  have entered: "KeyReader_enter (KeyReader_init True) ?w = (Returns (), ?self1, ?w1)"
    by (simp add: KeyReader_enter_def KeyReader_init_def open_printed setcbreak_def
          tcgetattr_def tcsetattr_def quiet_terminal_def line_mode_def cbreak_mode_def)
  have left: "fst (KeyReader_exit ?self1 ?w2) = Returns ()"
    by (simp add: KeyReader_exit_def close_printed tcsetattr_def quiet_terminal_def)
  have posix: "sys_platform ?w \<noteq> ''win32''" and same: "sys_platform ?w2 = sys_platform ?w"
    and entry: "attrs ?w = line_mode"
    by (simp_all add: quiet_terminal_def)
  have leaves: "?body ?self1 ?w1 = (Raises KeyboardInterrupt, ?self1, ?w2)"
    and raised: "Raises KeyboardInterrupt \<noteq> (Blocks :: unit outcome)"
    by simp_all
  have "fst (with_KeyReader True ?body ?w) = Raises KeyboardInterrupt \<and>
        attrs (snd (snd (with_KeyReader True ?body ?w))) = attrs ?w"
    using entered left posix same leaves raised
      close_restores_when_it_returns
        [where w = ?w and v = True and ?self1.0 = ?self1 and ?w1.0 = ?w1 and body = ?body
           and r = "Raises KeyboardInterrupt" and ?self2.0 = ?self1 and ?w2.0 = ?w2
           and self = ?self1 and a = line_mode]
    by blast
  then show ?thesis using entry by simp
qed

text \<open>
  C8, as stated: the flag \<^verbatim>\<open>verbose\<close> changes the printed lines and nothing else, in every
  state. This fails where the \<^verbatim>\<open>print\<close> raises, since it stands before the terminal
  calls: on a terminal in line mode whose standard output is a broken pipe, the verbose
  \<^verbatim>\<open>open\<close> raises and leaves the terminal in line mode with nothing saved, and the silent
  \<^verbatim>\<open>open\<close> returns, saves the settings and puts the terminal into cbreak mode.
\<close>

theorem verbose_changes_output_only_counterexample:
  "KeyReader_open \<lparr>verbose = True, old_settings = None\<rparr>
     ((quiet_terminal line_mode)\<lparr>print_result := Raises BrokenPipeError\<rparr>)
   = (Raises BrokenPipeError, \<lparr>verbose = True, old_settings = None\<rparr>,
      (quiet_terminal line_mode)\<lparr>print_result := Raises BrokenPipeError\<rparr>)
   \<and> KeyReader_open \<lparr>verbose = False, old_settings = None\<rparr>
     ((quiet_terminal line_mode)\<lparr>print_result := Raises BrokenPipeError\<rparr>)
   = (Returns (), \<lparr>verbose = False, old_settings = Some line_mode\<rparr>,
      (quiet_terminal cbreak_mode)\<lparr>print_result := Raises BrokenPipeError\<rparr>)
   \<and> cbreak_mode \<noteq> line_mode"
  by (simp add: open_unprinted open_printed setcbreak_def tcgetattr_def tcsetattr_def
        quiet_terminal_def line_mode_def cbreak_mode_def)

text \<open>
  C8, amended. As long as the line can be printed, the flag \<^verbatim>\<open>verbose\<close> changes the printed
  lines of \<^verbatim>\<open>open\<close> and \<^verbatim>\<open>close\<close> and nothing else: run twice from the same world, once
  with each value of the flag, \<^verbatim>\<open>open\<close> has the same outcome, saves the same settings and
  leaves the same world but for the printed lines, and so does \<^verbatim>\<open>close\<close>; with the flag
  set they print their one line each, without it nothing. \<^verbatim>\<open>read\<close> does not look at the
  flag and prints nothing, in every state.
\<close>

theorem verbose_changes_output_only_while_print_returns:
  "(print_result w = Returns () \<longrightarrow>
      functional (KeyReader_open (self\<lparr>verbose := True\<rparr>) w)
        = functional (KeyReader_open (self\<lparr>verbose := False\<rparr>) w)
      \<and> functional (KeyReader_close (self\<lparr>verbose := True\<rparr>) w)
        = functional (KeyReader_close (self\<lparr>verbose := False\<rparr>) w)
      \<and> stdout (snd (snd (KeyReader_open self w)))
        = stdout w @ (if verbose self then [''KeyReader: Opening...''] else [])
      \<and> stdout (snd (snd (KeyReader_close self w)))
        = stdout w @ (if verbose self then [''KeyReader: Closing...''] else []))
   \<and> KeyReader_read (self\<lparr>verbose := True\<rparr>) w
     = KeyReader_read (self\<lparr>verbose := False\<rparr>) w
   \<and> stdout (snd (KeyReader_read self w)) = stdout w"
proof -
  have o: "functional (KeyReader_open (self\<lparr>verbose := True\<rparr>) w)
        = functional (KeyReader_open (self\<lparr>verbose := False\<rparr>) w)"
    if "print_result w = Returns ()"
    using that
    by (cases "tcset_result w")
       (simp_all add: functional_def open_printed Let_def setcbreak_def tcgetattr_def
          tcsetattr_def)
  have c: "functional (KeyReader_close (self\<lparr>verbose := True\<rparr>) w)
        = functional (KeyReader_close (self\<lparr>verbose := False\<rparr>) w)"
    if "print_result w = Returns ()"
    using that
    by (cases "tcset_result w"; cases "old_settings self")
       (simp_all add: functional_def close_printed Let_def tcsetattr_def)
  have os: "stdout (snd (snd (KeyReader_open self w)))
        = stdout w @ (if verbose self then [''KeyReader: Opening...''] else [])"
    if "print_result w = Returns ()"
    using that by (simp add: open_printed Let_def setcbreak_keeps_stdout)
  have cs: "stdout (snd (snd (KeyReader_close self w)))
        = stdout w @ (if verbose self then [''KeyReader: Closing...''] else [])"
    if "print_result w = Returns ()"
    using that
    by (cases "old_settings self") (simp_all add: close_printed Let_def tcsetattr_keeps_stdout)
  have r: "KeyReader_read (self\<lparr>verbose := True\<rparr>) w
     = KeyReader_read (self\<lparr>verbose := False\<rparr>) w"
    by (simp add: KeyReader_read_def)
  show ?thesis
    using o c os cs r read_stdout [of self w] by blast
qed

theorem verbose_changes_output_only_while_print_returns_witness:
  "functional (KeyReader_open \<lparr>verbose = True, old_settings = None\<rparr>
      (quiet_terminal line_mode))
   = (Returns (), Some line_mode, quiet_terminal cbreak_mode)
   \<and> functional (KeyReader_open \<lparr>verbose = False, old_settings = None\<rparr>
      (quiet_terminal line_mode))
   = (Returns (), Some line_mode, quiet_terminal cbreak_mode)
   \<and> stdout (snd (snd (KeyReader_open \<lparr>verbose = True, old_settings = None\<rparr>
      (quiet_terminal line_mode)))) = [''KeyReader: Opening...'']"
proof -
  let ?self = "\<lparr>verbose = False, old_settings = None\<rparr>"
  let ?w = "quiet_terminal line_mode"
  have silent: "functional (KeyReader_open ?self ?w)
      = (Returns (), Some line_mode, quiet_terminal cbreak_mode)"
    by (simp add: functional_def open_printed setcbreak_def tcgetattr_def tcsetattr_def
          quiet_terminal_def line_mode_def cbreak_mode_def)
  have fine: "print_result ?w = Returns ()" and empty: "stdout ?w = []"
    by (simp_all add: quiet_terminal_def)
  have same: "functional (KeyReader_open (?self\<lparr>verbose := True\<rparr>) ?w)
        = functional (KeyReader_open (?self\<lparr>verbose := False\<rparr>) ?w)"
    and line: "stdout (snd (snd (KeyReader_open (?self\<lparr>verbose := True\<rparr>) ?w)))
        = stdout ?w @ [''KeyReader: Opening...'']"
    using fine
      verbose_changes_output_only_while_print_returns [of ?w ?self]
      verbose_changes_output_only_while_print_returns [of ?w "?self\<lparr>verbose := True\<rparr>"]
    by simp_all
  show ?thesis
    using silent same line empty by simp
qed

text \<open>
  C9, as stated: on the POSIX path \<^verbatim>\<open>close\<close> without a successful \<^verbatim>\<open>open\<close> before it
  raises \<^verbatim>\<open>AttributeError\<close>. This fails in two ways. An \<^verbatim>\<open>open\<close> that fails in
  \<^verbatim>\<open>tty.setcbreak\<close> has assigned \<^verbatim>\<open>old_settings\<close> on the line before: where the settings
  of the terminal cannot be changed, \<^verbatim>\<open>open\<close> raises \<^verbatim>\<open>termios.error\<close>, and the
  \<^verbatim>\<open>close\<close> after it gets to \<^verbatim>\<open>tcsetattr\<close> and raises \<^verbatim>\<open>termios.error\<close> as well. And a
  verbose \<^verbatim>\<open>close\<close> prints first: on a broken standard output it raises the error of the
  \<^verbatim>\<open>print\<close> although no \<^verbatim>\<open>open\<close> was ever called.
\<close>

theorem close_without_open_counterexample:
  "KeyReader_open (KeyReader_init False)
     ((quiet_terminal line_mode)\<lparr>tcset_result := Raises TermiosError\<rparr>)
   = (Raises TermiosError, \<lparr>verbose = False, old_settings = Some line_mode\<rparr>,
      (quiet_terminal line_mode)\<lparr>tcset_result := Raises TermiosError\<rparr>)
   \<and> fst (KeyReader_close \<lparr>verbose = False, old_settings = Some line_mode\<rparr>
      ((quiet_terminal line_mode)\<lparr>tcset_result := Raises TermiosError\<rparr>))
   = Raises TermiosError
   \<and> fst (KeyReader_close (KeyReader_init True)
      ((quiet_terminal line_mode)\<lparr>print_result := Raises BrokenPipeError\<rparr>))
   = Raises BrokenPipeError"
  by (simp add: KeyReader_init_def open_printed close_printed close_unprinted setcbreak_def
        tcgetattr_def tcsetattr_def quiet_terminal_def)

text \<open>
  C9, amended. The constructor does not create \<^verbatim>\<open>old_settings\<close>, and \<^verbatim>\<open>open\<close> assigns it
  on the POSIX path exactly when its line, if any, is printed and \<^verbatim>\<open>tcgetattr\<close> has
  returned, whether \<^verbatim>\<open>open\<close> then succeeds or not; nothing else assigns it. On the POSIX
  path a \<^verbatim>\<open>close\<close> that finds the field unset raises \<^verbatim>\<open>AttributeError\<close>, once its line,
  if any, is printed, and leaves the terminal as it is. On the console path \<^verbatim>\<open>close\<close>
  never reads the field: once its line, if any, is printed, it returns and has done nothing
  else.
\<close>

theorem close_before_settings_saved:
  "old_settings (KeyReader_init v) = None
   \<and> (old_settings self = None \<longrightarrow>
        (old_settings (fst (snd (KeyReader_open self w))) = None)
          = (sys_platform w = ''win32'' \<or> (verbose self \<and> print_result w \<noteq> Returns ()) \<or>
             \<not> isatty w))
   \<and> (sys_platform w \<noteq> ''win32'' \<and> old_settings self = None \<and>
        (verbose self \<longrightarrow> print_result w = Returns ()) \<longrightarrow>
        fst (KeyReader_close self w) = Raises AttributeError \<and>
        attrs (snd (snd (KeyReader_close self w))) = attrs w)
   \<and> (sys_platform w = ''win32'' \<and> (verbose self \<longrightarrow> print_result w = Returns ()) \<longrightarrow>
        KeyReader_close self w =
          (Returns (), self,
           if verbose self then w\<lparr>stdout := stdout w @ [''KeyReader: Closing...'']\<rparr> else w))"
proof -
  have assigned: "(old_settings (fst (snd (KeyReader_open self w))) = None)
          = (sys_platform w = ''win32'' \<or> (verbose self \<and> print_result w \<noteq> Returns ()) \<or>
             \<not> isatty w)"
    if "old_settings self = None"
    using that by (auto simp: open_saves)
  have unset: "fst (KeyReader_close self w) = Raises AttributeError \<and>
        attrs (snd (snd (KeyReader_close self w))) = attrs w"
    if "sys_platform w \<noteq> ''win32''" "old_settings self = None"
      "verbose self \<longrightarrow> print_result w = Returns ()"
    using that by (simp add: close_printed Let_def)
  have console: "KeyReader_close self w =
          (Returns (), self,
           if verbose self then w\<lparr>stdout := stdout w @ [''KeyReader: Closing...'']\<rparr> else w)"
    if "sys_platform w = ''win32''" "verbose self \<longrightarrow> print_result w = Returns ()"
    using that by (simp add: close_printed Let_def)
  show ?thesis
    using assigned unset console by (simp add: KeyReader_init_def)
qed

theorem close_before_settings_saved_witness:
  "fst (KeyReader_close (KeyReader_init True) (quiet_terminal line_mode))
   = Raises AttributeError
   \<and> attrs (snd (snd (KeyReader_close (KeyReader_init True) (quiet_terminal line_mode))))
   = line_mode
   \<and> old_settings (fst (snd (KeyReader_open (KeyReader_init False)
        ((quiet_terminal line_mode)\<lparr>isatty := False\<rparr>)))) = None
   \<and> old_settings (fst (snd (KeyReader_open (KeyReader_init False)
        ((quiet_terminal line_mode)\<lparr>tcset_result := Raises TermiosError\<rparr>)))) \<noteq> None
   \<and> fst (KeyReader_close (KeyReader_init True)
        ((quiet_terminal line_mode)\<lparr>sys_platform := ''win32''\<rparr>)) = Returns ()"
proof -
  let ?w = "quiet_terminal line_mode"
  let ?pipe = "(quiet_terminal line_mode)\<lparr>isatty := False\<rparr>"
  let ?stuck = "(quiet_terminal line_mode)\<lparr>tcset_result := Raises TermiosError\<rparr>"
  let ?win = "(quiet_terminal line_mode)\<lparr>sys_platform := ''win32''\<rparr>"
  have w: "sys_platform ?w \<noteq> ''win32''" "print_result ?w = Returns ()"
    "attrs ?w = line_mode"
    and pipe: "sys_platform ?pipe \<noteq> ''win32''" "\<not> isatty ?pipe"
    and stuck: "sys_platform ?stuck \<noteq> ''win32''" "isatty ?stuck"
    and win: "sys_platform ?win = ''win32''" "print_result ?win = Returns ()"
    by (simp_all add: quiet_terminal_def)
  have new: "old_settings (KeyReader_init True) = None"
    "old_settings (KeyReader_init False) = None" "\<not> verbose (KeyReader_init False)"
    by (simp_all add: KeyReader_init_def)
  have never: "fst (KeyReader_close (KeyReader_init True) ?w) = Raises AttributeError \<and>
      attrs (snd (snd (KeyReader_close (KeyReader_init True) ?w))) = attrs ?w"
    using w new close_before_settings_saved [of True "KeyReader_init True" ?w] by blast
  have failed: "old_settings (fst (snd (KeyReader_open (KeyReader_init False) ?pipe))) = None"
    using pipe new close_before_settings_saved [of False "KeyReader_init False" ?pipe]
    by blast
  have half: "old_settings (fst (snd (KeyReader_open (KeyReader_init False) ?stuck))) \<noteq> None"
    using stuck new close_before_settings_saved [of False "KeyReader_init False" ?stuck]
    by blast
  have console: "fst (KeyReader_close (KeyReader_init True) ?win) = Returns ()"
    using win close_before_settings_saved [of True "KeyReader_init True" ?win] by simp
  show ?thesis
    using never failed half console w by simp
qed

end
